theory Spec2Isabelle
  imports Complex_Main
begin

section \<open>Data model (src/server/models/DeployedApp.js)\<close>

text \<open>
  The mongoose schema \<open>deployedAppSchema\<close>, restricted to the paths that the monitoring
  service reads or writes. String enums of the schema are datatypes. Dates are
  milliseconds since the epoch (\<open>int\<close>). The counters \<open>checksPerformed\<close> and
  \<open>consecutiveFailures\<close> are schema \<open>Number\<close>s without a \<open>min\<close> validator, so they are
  \<open>int\<close>; \<open>uptimePercentage\<close> and \<open>responseTime.average\<close> are results of a JavaScript
  division and are idealised as \<open>real\<close>.
\<close>

datatype healthStatus = Up | Down | Warning | Restarting | Unknown

datatype deploymentStatus = Pending | Deploying | Deployed | Failed | Stopped | Updating

datatype incidentType = Downtime | SlowResponse | ErrorRate | SslIssue

datatype severity = Low | Medium | High | Critical

text \<open>
  One element of \<open>monitoring.incidents\<close>. \<open>oid\<close> is the \<open>_id\<close> that mongoose gives every
  subdocument; \<open>incidentId\<close> is the schema's own string path \<open>id\<close>.
\<close>

record incident =
  oid :: nat
  incidentId :: string
  incidentType :: incidentType
  severity :: severity
  startTime :: int
  endTime :: "int option"
  duration :: "int option"
  resolved :: bool
  description :: string

record responseTime_rec =
  current :: int
  average :: real

record monitoring_rec =
  uptimePercentage :: real
  responseTime :: responseTime_rec
  checksPerformed :: int
  consecutiveFailures :: int
  lastFailure :: "int option"
  incidents :: "incident list"

record configuration_rec =
  autoRestart :: bool
  maxRestartAttempts :: int
  healthCheckPath :: string
  healthCheckInterval :: int
  timeout :: int

record deployment_rec =
  url :: "string option"
  customDomain :: "string option"

record deployedApp =
  appId :: string
  userId :: string
  deploymentStatus :: deploymentStatus
  healthStatus :: healthStatus
  monitoringEnabled :: bool
  lastCheck :: int
  deployment :: deployment_rec
  monitoring :: monitoring_rec
  configuration :: configuration_rec
  isActive :: bool

text \<open>
  A document as \<open>DeployedApp.create\<close> makes it in the route \<open>POST /api/apps\<close>: the caller
  chooses \<open>deployment\<close> and \<open>configuration\<close>; every monitoring path takes its schema
  default.
\<close>

definition newApp ::
  "string \<Rightarrow> string \<Rightarrow> int \<Rightarrow> deployment_rec \<Rightarrow> configuration_rec \<Rightarrow> deployedApp" where
  "newApp aid uid now dep conf =
     \<lparr> appId = aid, userId = uid, deploymentStatus = Pending, healthStatus = Unknown,
       monitoringEnabled = True, lastCheck = now, deployment = dep,
       monitoring = \<lparr> uptimePercentage = 100,
                      responseTime = \<lparr> current = 0, average = 0 \<rparr>,
                      checksPerformed = 0, consecutiveFailures = 0,
                      lastFailure = None, incidents = [] \<rparr>,
       configuration = conf, isActive = True \<rparr>"

text \<open>The schema defaults of \<open>configuration\<close>.\<close>

definition defaultConfiguration :: configuration_rec where
  "defaultConfiguration =
     \<lparr> autoRestart = True, maxRestartAttempts = 3, healthCheckPath = ''/'',
       healthCheckInterval = 30, timeout = 30 \<rparr>"

subsection \<open>Methods of the model\<close>

text \<open>
  The counters are JavaScript Numbers, IEEE 754 doubles that hold integers. Every integer
  of magnitude up to \<open>2^53 = 9007199254740992\<close> is a Number; beyond that the Numbers lie
  a power of two apart, \<open>spacing 1 n\<close> around \<open>n\<close>. The result of \<open>x + y\<close> is the Number
  nearest to the exact sum, and of two equally near ones the even multiple of the
  spacing. So \<open>+= 1\<close> is exact below \<open>2^53\<close> and is lost at \<open>2^53\<close>. A sum beyond the
  largest double would be \<open>Infinity\<close>, which \<open>+= 1\<close> never reaches.
\<close>

function spacing :: "int \<Rightarrow> int \<Rightarrow> int" where
  "spacing q n = (if q \<le> 0 \<or> \<bar>n\<bar> \<le> 9007199254740992 * q then q else spacing (2 * q) n)"
  by pat_completeness auto
termination
  by (relation "measure (\<lambda>(q, n). nat (\<bar>n\<bar> - 9007199254740992 * q))") auto

declare spacing.simps [simp del]

definition roundNumber :: "int \<Rightarrow> int" where
  "roundNumber n =
     (let q = spacing 1 n; m = n div q; r = n mod q
      in if 2 * r < q \<or> (2 * r = q \<and> even m) then m * q else (m + 1) * q)"

definition jsAdd :: "int \<Rightarrow> int \<Rightarrow> int" where
  "jsAdd x y = roundNumber (x + y)"

text \<open>
  \<open>updateHealthStatus(status, responseTime = null)\<close>, the part before \<open>this.save()\<close>.
  \<open>now\<close> is the value of \<open>new Date()\<close> during the call. For \<open>totalChecks = 0\<close> the
  JavaScript division gives \<open>NaN\<close> or an infinity, which the idealisation does not
  represent; \<open>checksPerformed\<close> is at least 1 there whenever it was not negative before.
\<close>

definition updateHealthStatus ::
  "int \<Rightarrow> healthStatus \<Rightarrow> int option \<Rightarrow> deployedApp \<Rightarrow> deployedApp" where
  "updateHealthStatus now status rt a =
    (let m0 = monitoring a;
         m1 = m0 \<lparr> checksPerformed := jsAdd (checksPerformed m0) 1 \<rparr>;
         m2 = (case rt of
                 None \<Rightarrow> m1
               | Some r \<Rightarrow>
                   (let totalChecks = checksPerformed m1;
                        currentAvg = average (responseTime m1)
                    in m1 \<lparr> responseTime :=
                         \<lparr> current = r,
                           average = ((currentAvg * real_of_int (totalChecks - 1))
                                        + real_of_int r) / real_of_int totalChecks \<rparr> \<rparr>));
         m3 = (if status = Up then m2 \<lparr> consecutiveFailures := 0 \<rparr>
               else if status = Down \<or> status = Warning then
                 m2 \<lparr> consecutiveFailures := jsAdd (consecutiveFailures m2) 1,
                      lastFailure := Some now \<rparr>
               else m2);
         uptimeChecks = checksPerformed m3 - consecutiveFailures m3;
         m4 = m3 \<lparr> uptimePercentage :=
                (real_of_int uptimeChecks / real_of_int (max (checksPerformed m3) 1)) * 100 \<rparr>
     in a \<lparr> healthStatus := status, lastCheck := now, monitoring := m4 \<rparr>)"

text \<open>
  \<open>createIncident(type, severity, description)\<close>, the part before \<open>this.save()\<close>. The
  random \<open>id\<close> string and the \<open>_id\<close> are supplied by the caller of the model.
\<close>

definition createIncident ::
  "nat \<Rightarrow> string \<Rightarrow> int \<Rightarrow> incidentType \<Rightarrow> severity \<Rightarrow> string \<Rightarrow> deployedApp \<Rightarrow> deployedApp"
  where
  "createIncident newOid newId now ty sev descr a =
    (let inc = \<lparr> oid = newOid, incidentId = newId, incidentType = ty, severity = sev,
                 startTime = now, endTime = None, duration = None, resolved = False,
                 description = descr \<rparr>
     in a \<lparr> monitoring := (monitoring a) \<lparr> incidents := incidents (monitoring a) @ [inc] \<rparr> \<rparr>)"

text \<open>
  \<open>resolveIncident(incidentId)\<close>. \<open>incidents.id(x)\<close> is mongoose's lookup of the first
  subdocument whose \<open>_id\<close> is \<open>x\<close>; \<open>Math.floor\<close> of the quotient is \<open>div\<close> on \<open>int\<close>.
\<close>

fun resolveIn :: "int \<Rightarrow> nat \<Rightarrow> incident list \<Rightarrow> incident list" where
  "resolveIn now k [] = []"
| "resolveIn now k (i # is) =
     (if oid i = k then
        i \<lparr> endTime := Some now, duration := Some ((now - startTime i) div 1000),
            resolved := True \<rparr> # is
      else i # resolveIn now k is)"

definition resolveIncident :: "int \<Rightarrow> nat \<Rightarrow> deployedApp \<Rightarrow> deployedApp" where
  "resolveIncident now k a =
     a \<lparr> monitoring := (monitoring a) \<lparr> incidents := resolveIn now k (incidents (monitoring a)) \<rparr> \<rparr>"

text \<open>\<open>shouldAutoRestart()\<close>.\<close>

definition shouldAutoRestart :: "deployedApp \<Rightarrow> bool" where
  "shouldAutoRestart a \<longleftrightarrow>
     autoRestart (configuration a) \<and> consecutiveFailures (monitoring a) \<ge> 3 \<and>
     healthStatus a = Down"

text \<open>
  The virtual \<open>fullUrl\<close>. A JavaScript string is truthy when it is defined and not empty.
\<close>

definition truthy :: "string option \<Rightarrow> bool" where
  "truthy s = (case s of None \<Rightarrow> False | Some x \<Rightarrow> x \<noteq> [])"

definition fullUrl :: "deployedApp \<Rightarrow> string option" where
  "fullUrl a =
     (case customDomain (deployment a) of
        None \<Rightarrow> url (deployment a)
      | Some d \<Rightarrow> if d \<noteq> [] then Some (''https://'' @ d) else url (deployment a))"

section \<open>The monitoring service (src/server/services/MonitoringService.js)\<close>

text \<open>\<open>shouldSendAlert(app, status, responseTime)\<close>; \<open>responseTime\<close> may be \<open>null\<close>.\<close>

definition shouldSendAlert :: "deployedApp \<Rightarrow> healthStatus \<Rightarrow> int option \<Rightarrow> bool" where
  "shouldSendAlert a status rt =
     (if \<not> monitoringEnabled a then False
      else if status = Down \<and> consecutiveFailures (monitoring a) \<ge> 3 then True
      else if (case rt of None \<Rightarrow> False | Some r \<Rightarrow> r \<noteq> 0 \<and> r > 5000)
              \<and> consecutiveFailures (monitoring a) \<ge> 2 then True
      else if status = Warning \<and> consecutiveFailures (monitoring a) \<ge> 5 then True
      else False)"

subsection \<open>The environment of one check cycle\<close>

text \<open>
  A thrown JavaScript error, with the properties the service inspects: \<open>err.code\<close>,
  \<open>err.response.status\<close> (when \<open>err.response\<close> is set) and \<open>err.message\<close>.
\<close>

record js_error =
  code :: "string option"
  responseStatus :: "int option"
  message :: string

text \<open>
  The promise returned by \<open>axios.get\<close> either resolves with a response (of which only
  \<open>status\<close> is read) or rejects. With \<open>validateStatus: status < 500\<close> axios rejects a
  response whose status is 500 or more, with an error that carries the response; the
  model allows every outcome on either side.
\<close>

datatype axios_result = Resolved int | Rejected js_error

datatype user_lookup = UserFound | UserMissing | LookupFailed js_error

text \<open>
  Everything a check cycle takes from outside the document: the network, the clock,
  the user collection, the identifiers of a new incident, and the outcome of each
  \<open>save()\<close> (\<open>None\<close>: the promise resolves; \<open>Some e\<close>: it rejects with \<open>e\<close>).
\<close>

record cycle_env =
  axiosGet :: "string \<Rightarrow> int \<Rightarrow> axios_result"
  elapsed :: int
  tUpdate :: int
  saveUpdate :: "js_error option"
  findUser :: user_lookup
  incidentOid :: nat
  incidentIdString :: string
  tIncident :: int
  saveRestarting :: "js_error option"
  tRestart :: int
  saveRestart :: "js_error option"
  saveDown :: "js_error option"

text \<open>
  What a cycle shows to the outside besides the document: the alert handed to the
  notification service, the start of a restart attempt, and each call of
  \<open>emitHealthUpdate\<close> with the \<open>healthStatus\<close> it publishes.
\<close>

datatype event = AlertSent healthStatus int | RestartAttempt | EmitHealthUpdate healthStatus

record cycle_result =
  doc :: deployedApp
  thrown :: "js_error option"
  events :: "event list"

subsection \<open>The probe: the \<open>try\<close>/\<open>catch\<close> of \<open>checkAppHealth\<close>\<close>

datatype probe_result = NoUrl | Observed healthStatus int "string option"

definition probeUrl :: "deployedApp \<Rightarrow> string option" where
  "probeUrl a = (if truthy (fullUrl a) then fullUrl a else url (deployment a))"

definition checkUrl :: "string \<Rightarrow> string \<Rightarrow> string" where
  "checkUrl u p =
     (let healthCheckPath = (if p = [] then ''/'' else p)
      in if u \<noteq> [] \<and> last u = CHR ''/'' then u @ drop 1 healthCheckPath
         else u @ healthCheckPath)"

definition timeoutMs :: "int \<Rightarrow> int" where
  "timeoutMs t = (if t * 1000 = 0 then 30000 else t * 1000)"

text \<open>The \<open>try\<close> block: \<open>Inl\<close> is an error thrown inside it.\<close>

definition tryBlock :: "cycle_env \<Rightarrow> deployedApp \<Rightarrow> js_error + probe_result" where
  "tryBlock env a =
     (case probeUrl a of
        None \<Rightarrow> Inr NoUrl
      | Some u \<Rightarrow>
          if u = [] then Inr NoUrl
          else
            (case axiosGet env (checkUrl u (healthCheckPath (configuration a)))
                               (timeoutMs (timeout (configuration a))) of
               Rejected err \<Rightarrow> Inl err
             | Resolved s \<Rightarrow>
                 Inr (Observed
                        (if s \<ge> 200 \<and> s < 400 then Up
                         else if s \<ge> 400 \<and> s < 500 then Warning
                         else Down)
                        (elapsed env) None)))"

text \<open>The \<open>catch\<close> block.\<close>

definition catchBlock :: "cycle_env \<Rightarrow> js_error \<Rightarrow> probe_result" where
  "catchBlock env err =
     Observed
       (if code err = Some ''ECONNREFUSED'' \<or> code err = Some ''ENOTFOUND''
           \<or> code err = Some ''ETIMEDOUT'' then Down
        else if (case responseStatus err of None \<Rightarrow> False | Some s \<Rightarrow> s \<ge> 500) then Down
        else Warning)
       (elapsed env) (Some (message err))"

definition probe :: "cycle_env \<Rightarrow> deployedApp \<Rightarrow> js_error + probe_result" where
  "probe env a =
     (case tryBlock env a of
        Inr r \<Rightarrow> Inr r
      | Inl err \<Rightarrow> Inr (catchBlock env err))"

subsection \<open>Alerting, remediation and the cycle\<close>

text \<open>
  \<open>checkAlertConditions\<close>. Its whole body is inside \<open>try\<close>/\<open>catch\<close>, and
  \<open>notificationService.sendAlert\<close> catches its own errors and does not touch the
  document. A rejected \<open>save()\<close> of \<open>createIncident\<close> is caught here after the incident
  has been pushed onto the document.
\<close>

definition checkAlertConditions ::
  "cycle_env \<Rightarrow> healthStatus \<Rightarrow> int option \<Rightarrow> string option \<Rightarrow> deployedApp
     \<Rightarrow> event list \<times> deployedApp" where
  "checkAlertConditions env status rt error a =
     (case findUser env of
        LookupFailed e \<Rightarrow> ([], a)
      | UserMissing \<Rightarrow> ([], a)
      | UserFound \<Rightarrow>
          if shouldSendAlert a status rt then
            ([AlertSent status (consecutiveFailures (monitoring a))],
             if consecutiveFailures (monitoring a) = 1 \<and> status = Down then
               createIncident (incidentOid env) (incidentIdString env) (tIncident env)
                 Downtime High
                 (''Application is down: '' @
                    (case error of
                       None \<Rightarrow> ''Unknown error''
                     | Some m \<Rightarrow> if m = [] then ''Unknown error'' else m))
                 a
             else a)
          else ([], a))"

text \<open>\<open>simulateRestart\<close>: the assignments, then \<open>save()\<close>.\<close>

definition simulateRestart :: "cycle_env \<Rightarrow> deployedApp \<Rightarrow> js_error option \<times> deployedApp" where
  "simulateRestart env a =
     (saveRestart env,
      a \<lparr> healthStatus := Up, lastCheck := tRestart env,
          monitoring := (monitoring a) \<lparr> consecutiveFailures := 0 \<rparr> \<rparr>)"

text \<open>
  \<open>attemptAutoRestart\<close>. The \<open>try\<close> block fails when the first \<open>save()\<close> or the restart
  call rejects; the \<open>catch\<close> block then runs on the document as the \<open>try\<close> block left it.
\<close>

definition attemptAutoRestart :: "cycle_env \<Rightarrow> deployedApp \<Rightarrow> cycle_result" where
  "attemptAutoRestart env a =
     (let a1 = a \<lparr> healthStatus := Restarting \<rparr>;
          (failure, ev, a2) =
            (case saveRestarting env of
               Some e \<Rightarrow> (Some e, [], a1)
             | None \<Rightarrow>
                 (case simulateRestart env a1 of
                    (r, a') \<Rightarrow> (r, [EmitHealthUpdate Restarting], a')))
      in case failure of
           None \<Rightarrow> \<lparr> doc = a2, thrown = None, events = RestartAttempt # ev \<rparr>
         | Some e \<Rightarrow>
             (let a3 = a2 \<lparr> healthStatus := Down \<rparr>
              in case saveDown env of
                   Some e' \<Rightarrow> \<lparr> doc = a3, thrown = Some e', events = RestartAttempt # ev \<rparr>
                 | None \<Rightarrow>
                     \<lparr> doc = a3, thrown = None,
                       events = RestartAttempt # ev @ [EmitHealthUpdate Down] \<rparr>))"

text \<open>
  \<open>checkAppHealth\<close>: one check cycle of one target. Without a URL the cycle returns
  before anything is written.
\<close>

definition checkAppHealth :: "cycle_env \<Rightarrow> deployedApp \<Rightarrow> cycle_result" where
  "checkAppHealth env a =
     (case probe env a of
        Inl e \<Rightarrow> \<lparr> doc = a, thrown = Some e, events = [] \<rparr>
      | Inr NoUrl \<Rightarrow> \<lparr> doc = a, thrown = None, events = [] \<rparr>
      | Inr (Observed status rt error) \<Rightarrow>
          (let a1 = updateHealthStatus (tUpdate env) status (Some rt) a
           in case saveUpdate env of
                Some e \<Rightarrow> \<lparr> doc = a1, thrown = Some e, events = [] \<rparr>
              | None \<Rightarrow>
                  (case checkAlertConditions env status (Some rt) error a1 of
                     (ev, a2) \<Rightarrow>
                       if shouldAutoRestart a2 then
                         (let r = attemptAutoRestart env a2
                          in case thrown r of
                               Some e \<Rightarrow> r \<lparr> events := ev @ events r \<rparr>
                             | None \<Rightarrow>
                                 r \<lparr> events := ev @ events r
                                        @ [EmitHealthUpdate (healthStatus (doc r))] \<rparr>)
                       else
                         \<lparr> doc = a2, thrown = None,
                           events = ev @ [EmitHealthUpdate (healthStatus a2)] \<rparr>)))"

subsection \<open>The periodic jobs\<close>

text \<open>
  The body of the loop of \<open>aggregateHealthMetrics\<close> before \<open>save()\<close>:
  \<open>Math.max(0, 100 - consecutiveFailures * 2)\<close> is assigned to \<open>uptimePercentage\<close>.
\<close>

definition estimatedUptime :: "deployedApp \<Rightarrow> deployedApp" where
  "estimatedUptime a =
     a \<lparr> monitoring := (monitoring a)
           \<lparr> uptimePercentage :=
               real_of_int (max 0 (100 - (consecutiveFailures (monitoring a) * 2))) \<rparr> \<rparr>"

text \<open>
  The job over the collection, given as the list of its documents. \<open>find\<close> selects the
  active, deployed ones; the loop saves each in turn, and a rejected \<open>save()\<close> (here: the
  store refuses the document) leaves the loop through the \<open>catch\<close> of the job, so the
  documents after it keep their stored value.
\<close>

fun aggregateLoop :: "(deployedApp \<Rightarrow> bool) \<Rightarrow> deployedApp list \<Rightarrow> deployedApp list" where
  "aggregateLoop saveOk [] = []"
| "aggregateLoop saveOk (a # as) =
     (if isActive a \<and> deploymentStatus a = Deployed then
        (if saveOk (estimatedUptime a) then estimatedUptime a # aggregateLoop saveOk as
         else a # as)
      else a # aggregateLoop saveOk as)"

definition aggregateHealthMetrics ::
  "bool \<Rightarrow> (deployedApp \<Rightarrow> bool) \<Rightarrow> deployedApp list \<Rightarrow> deployedApp list" where
  "aggregateHealthMetrics findOk saveOk db = (if findOk then aggregateLoop saveOk db else db)"

text \<open>\<open>cleanupOldData\<close>, the \<open>$pull\<close> on one document.\<close>

definition cleanupOldData :: "int \<Rightarrow> deployedApp \<Rightarrow> deployedApp" where
  "cleanupOldData now a =
     a \<lparr> monitoring := (monitoring a)
           \<lparr> incidents :=
               filter (\<lambda>i. \<not> (startTime i < now - 30 * 24 * 60 * 60 * 1000 \<and> resolved i))
                 (incidents (monitoring a)) \<rparr> \<rparr>"

subsection \<open>Reachable documents\<close>

text \<open>
  The documents the code can produce: a created document, and from a reachable one the
  result of every mutation the repository performs. The single assignments of a cycle
  are steps of their own, so a document saved in the middle of a cycle is reachable too.
  The rules \<open>status_set\<close> and \<open>configured\<close> also cover the routes that write
  \<open>healthStatus\<close>, \<open>monitoringEnabled\<close>, \<open>configuration\<close> and \<open>isActive\<close>.
\<close>

inductive reachable :: "deployedApp \<Rightarrow> bool" where
  created: "reachable (newApp aid uid now dep conf)"
| updated: "reachable a \<Longrightarrow> reachable (updateHealthStatus now status rt a)"
| alerted: "reachable a \<Longrightarrow> reachable (snd (checkAlertConditions env status rt error a))"
| status_set: "reachable a \<Longrightarrow> reachable (a \<lparr> healthStatus := h \<rparr>)"
| restarted: "reachable a \<Longrightarrow> reachable (snd (simulateRestart env a))"
| cycle: "reachable a \<Longrightarrow> reachable (doc (checkAppHealth env a))"
| aggregated: "reachable a \<Longrightarrow> reachable (estimatedUptime a)"
| cleaned: "reachable a \<Longrightarrow> reachable (cleanupOldData now a)"
| configured:
    "reachable a \<Longrightarrow>
     reachable (a \<lparr> deploymentStatus := ds, monitoringEnabled := en, configuration := conf,
                    isActive := act \<rparr>)"

subsection \<open>Invariants and concrete documents\<close>

text \<open>An unresolved incident of type \<open>downtime\<close>.\<close>

definition openDowntime :: "incident \<Rightarrow> bool" where
  "openDowntime i \<longleftrightarrow> incidentType i = Downtime \<and> \<not> resolved i"

text \<open>
  The failure streak is counted within the checks performed, and the counters do not
  pass \<open>2^53\<close>.
\<close>

definition counters_ok :: "deployedApp \<Rightarrow> bool" where
  "counters_ok a \<longleftrightarrow>
     0 \<le> consecutiveFailures (monitoring a) \<and>
     consecutiveFailures (monitoring a) \<le> checksPerformed (monitoring a) \<and>
     checksPerformed (monitoring a) \<le> 9007199254740992"

text \<open>A freshly registered target with the default configuration, and probe outcomes.\<close>

definition exampleApp :: deployedApp where
  "exampleApp =
     newApp ''app_1'' ''user_1'' 0 \<lparr> url = Some ''http://app.example'', customDomain = None \<rparr>
       defaultConfiguration"

definition exampleEnv :: "axios_result \<Rightarrow> cycle_env" where
  "exampleEnv r =
     \<lparr> axiosGet = (\<lambda>u t. r), elapsed = 120, tUpdate = 1000, saveUpdate = None,
       findUser = UserFound, incidentOid = 7, incidentIdString = ''incident_1'',
       tIncident = 1001, saveRestarting = None, tRestart = 3000, saveRestart = None,
       saveDown = None \<rparr>"

definition connectionRefused :: js_error where
  "connectionRefused =
     \<lparr> code = Some ''ECONNREFUSED'', responseStatus = None,
       message = ''connect ECONNREFUSED'' \<rparr>"



text \<open>
  The rejection of \<open>axios.get\<close> when no response has arrived within the \<open>timeout\<close> of
  the request, here the default 30 seconds: axios gives it the code \<open>ECONNABORTED\<close>.
\<close>

definition axiosTimeout :: js_error where
  "axiosTimeout =
     \<lparr> code = Some ''ECONNABORTED'', responseStatus = None,
       message = ''timeout of 30000ms exceeded'' \<rparr>"

definition saveFailed :: js_error where
  "saveFailed = \<lparr> code = None, responseStatus = None, message = ''save failed'' \<rparr>"

text \<open>A target without automatic restart that has answered 404 twice since registration.\<close>

definition warnedApp :: deployedApp where
  "warnedApp =
     doc (checkAppHealth (exampleEnv (Resolved 404))
       (doc (checkAppHealth (exampleEnv (Resolved 404))
          (exampleApp \<lparr> configuration := defaultConfiguration \<lparr> autoRestart := False \<rparr> \<rparr>))))"

text \<open>A target that is down, with one open downtime incident on record.\<close>

definition openIncident :: incident where
  "openIncident =
     \<lparr> oid = 1, incidentId = ''incident_0'', incidentType = Downtime, severity = High,
       startTime = 500, endTime = None, duration = None, resolved = False,
       description = ''Application is down: Unknown error'' \<rparr>"

definition downApp :: deployedApp where
  "downApp =
     exampleApp
       \<lparr> healthStatus := Down,
         configuration := defaultConfiguration \<lparr> autoRestart := False \<rparr>,
         monitoring := (monitoring exampleApp)
           \<lparr> checksPerformed := 3, consecutiveFailures := 3, uptimePercentage := 0,
             lastFailure := Some 900, incidents := [openIncident] \<rparr> \<rparr>"

text \<open>
  A target whose configured \<open>maxRestartAttempts\<close> is 5, after two checks that were
  answered with 503.
\<close>

definition patientApp :: deployedApp where
  "patientApp =
     doc (checkAppHealth (exampleEnv (Resolved 503))
       (doc (checkAppHealth (exampleEnv (Resolved 503))
          (exampleApp \<lparr> configuration := defaultConfiguration \<lparr> maxRestartAttempts := 5 \<rparr> \<rparr>))))"

text \<open>A target that is down, with both counters at \<open>2^53\<close>.\<close>

definition saturatedApp :: deployedApp where
  "saturatedApp =
     exampleApp
       \<lparr> healthStatus := Down,
         monitoring := (monitoring exampleApp)
           \<lparr> checksPerformed := 9007199254740992, consecutiveFailures := 9007199254740992,
             uptimePercentage := 0, lastFailure := Some 900 \<rparr> \<rparr>"

section \<open>Properties\<close>

subsection \<open>Number arithmetic\<close>

lemma spacing_safe: "\<bar>n\<bar> \<le> 9007199254740992 \<Longrightarrow> spacing 1 n = 1"
  by (subst spacing.simps) simp

lemma roundNumber_exact: "\<bar>n\<bar> \<le> 9007199254740992 \<Longrightarrow> roundNumber n = n"
  by (simp add: roundNumber_def spacing_safe)

lemma jsAdd_exact: "\<bar>x + y\<bar> \<le> 9007199254740992 \<Longrightarrow> jsAdd x y = x + y"
  by (simp add: jsAdd_def roundNumber_exact)

lemma spacing_lost: "spacing 1 9007199254740993 = 2"
  by (subst spacing.simps, simp, subst spacing.simps, simp)

lemma jsAdd_lost: "jsAdd 9007199254740992 1 = 9007199254740992"
  by (simp add: jsAdd_def roundNumber_def spacing_lost)

lemma jsAdd_counter:
  "0 \<le> x \<Longrightarrow> x \<le> 9007199254740992 \<Longrightarrow>
   jsAdd x 1 = (if x < 9007199254740992 then x + 1 else 9007199254740992)"
  by (cases "x = 9007199254740992") (simp_all add: jsAdd_lost jsAdd_exact)

subsection \<open>The counters after an update\<close>

lemma updateHealthStatus_counters:
  "consecutiveFailures (monitoring (updateHealthStatus now status rt a)) =
     (if status = Up then 0
      else if status = Down \<or> status = Warning
        then jsAdd (consecutiveFailures (monitoring a)) 1
      else consecutiveFailures (monitoring a))"
  "checksPerformed (monitoring (updateHealthStatus now status rt a)) =
     jsAdd (checksPerformed (monitoring a)) 1"
  by (simp_all add: updateHealthStatus_def Let_def split: option.split)

subsection \<open>The shape of a check cycle\<close>

lemma updateHealthStatus_incidents:
  "incidents (monitoring (updateHealthStatus now status rt a)) = incidents (monitoring a)"
  by (simp add: updateHealthStatus_def Let_def split: option.split)

lemma checkAlertConditions_doc:
  "snd (checkAlertConditions env status rt error a) = a"
  by (auto simp: checkAlertConditions_def shouldSendAlert_def
           split: user_lookup.split option.split)

lemma attemptAutoRestart_incidents:
  "incidents (monitoring (doc (attemptAutoRestart env a))) = incidents (monitoring a)"
  by (simp add: attemptAutoRestart_def simulateRestart_def Let_def split: option.split)

lemma probe_cases:
  obtains "probe env a = Inr NoUrl"
  | st rt er where "probe env a = Inr (Observed st rt er)"
  by (cases "tryBlock env a"; cases "catchBlock env (projl (tryBlock env a))")
     (auto simp: probe_def catchBlock_def intro: probe_result.exhaust)

lemma checkAppHealth_NoUrl:
  "probe env a = Inr NoUrl \<Longrightarrow>
   checkAppHealth env a = \<lparr> doc = a, thrown = None, events = [] \<rparr>"
  by (simp add: checkAppHealth_def)

lemma checkAppHealth_save_failed:
  "probe env a = Inr (Observed st rt er) \<Longrightarrow> saveUpdate env = Some e \<Longrightarrow>
   checkAppHealth env a =
     \<lparr> doc = updateHealthStatus (tUpdate env) st (Some rt) a, thrown = Some e, events = [] \<rparr>"
  by (simp add: checkAppHealth_def)

lemma checkAppHealth_Observed:
  assumes "probe env a = Inr (Observed st rt er)" and "saveUpdate env = None"
  shows "checkAppHealth env a =
     (let a1 = updateHealthStatus (tUpdate env) st (Some rt) a;
          ev = fst (checkAlertConditions env st (Some rt) er a1)
      in if shouldAutoRestart a1 then
           (let r = attemptAutoRestart env a1
            in case thrown r of
                 Some e \<Rightarrow> r \<lparr> events := ev @ events r \<rparr>
               | None \<Rightarrow>
                   r \<lparr> events := ev @ events r @ [EmitHealthUpdate (healthStatus (doc r))] \<rparr>)
         else \<lparr> doc = a1, thrown = None, events = ev @ [EmitHealthUpdate (healthStatus a1)] \<rparr>)"
proof -
  define a1 where "a1 = updateHealthStatus (tUpdate env) st (Some rt) a"
  obtain ev where ev: "checkAlertConditions env st (Some rt) er a1 = (ev, a1)"
    by (metis checkAlertConditions_doc prod.collapse)
  show ?thesis
    using assms ev by (simp add: checkAppHealth_def Let_def a1_def split: option.split)
qed

lemma checkAppHealth_incidents:
  "incidents (monitoring (doc (checkAppHealth env a))) = incidents (monitoring a)"
proof (cases rule: probe_cases[of env a])
  case 1
  then show ?thesis by (simp add: checkAppHealth_NoUrl)
next
  case (2 st rt er)
  show ?thesis
  proof (cases "saveUpdate env")
    case None
    with 2 show ?thesis
      by (simp add: checkAppHealth_Observed Let_def attemptAutoRestart_incidents
            updateHealthStatus_incidents split: option.split)
  next
    case (Some e)
    with 2 show ?thesis
      by (simp add: checkAppHealth_save_failed updateHealthStatus_incidents)
  qed
qed

subsection \<open>Counters\<close>

lemma counters_ok_updateHealthStatus:
  "counters_ok a \<Longrightarrow> counters_ok (updateHealthStatus now status rt a)"
  by (simp add: counters_ok_def updateHealthStatus_counters jsAdd_counter)

lemma counters_ok_attemptAutoRestart:
  "counters_ok a \<Longrightarrow> counters_ok (doc (attemptAutoRestart env a))"
  by (auto simp: counters_ok_def attemptAutoRestart_def simulateRestart_def Let_def
      split: option.split)

lemma counters_ok_checkAppHealth:
  assumes "counters_ok a"
  shows "counters_ok (doc (checkAppHealth env a))"
proof (cases rule: probe_cases[of env a])
  case 1
  with assms show ?thesis by (simp add: checkAppHealth_NoUrl)
next
  case (2 st rt er)
  have upd: "counters_ok (updateHealthStatus (tUpdate env) st (Some rt) a)"
    using assms by (rule counters_ok_updateHealthStatus)
  show ?thesis
  proof (cases "saveUpdate env")
    case None
    with 2 upd show ?thesis
      by (simp add: checkAppHealth_Observed Let_def counters_ok_attemptAutoRestart
            split: option.split)
  next
    case (Some e)
    with 2 upd show ?thesis
      by (simp add: checkAppHealth_save_failed)
  qed
qed

lemma reachable_counters_ok: "reachable a \<Longrightarrow> counters_ok a"
proof (induction rule: reachable.induct)
  case (created aid uid now dep conf)
  show ?case by (simp add: counters_ok_def newApp_def)
next
  case (updated a now status rt)
  then show ?case by (simp add: counters_ok_updateHealthStatus)
next
  case (alerted a env status rt error)
  then show ?case by (simp add: checkAlertConditions_doc)
next
  case (status_set a h)
  then show ?case by (simp add: counters_ok_def)
next
  case (restarted a env)
  then show ?case by (simp add: counters_ok_def simulateRestart_def)
next
  case (cycle a env)
  then show ?case by (simp add: counters_ok_checkAppHealth)
next
  case (aggregated a)
  then show ?case by (simp add: counters_ok_def estimatedUptime_def)
next
  case (cleaned a now)
  then show ?case by (simp add: counters_ok_def cleanupOldData_def)
next
  case (configured a ds en conf act)
  then show ?case by (simp add: counters_ok_def)
qed

lemma uptime_formula:
  assumes "counters_ok a"
  shows "uptimePercentage (monitoring (updateHealthStatus now status rt a)) =
           real_of_int (checksPerformed (monitoring (updateHealthStatus now status rt a))
                        - consecutiveFailures (monitoring (updateHealthStatus now status rt a)))
           / real_of_int (checksPerformed (monitoring (updateHealthStatus now status rt a))) * 100"
proof -
  have "1 \<le> checksPerformed (monitoring (updateHealthStatus now status rt a))"
    using assms by (simp add: counters_ok_def updateHealthStatus_counters jsAdd_counter)
  then have "max (checksPerformed (monitoring (updateHealthStatus now status rt a))) 1
      = checksPerformed (monitoring (updateHealthStatus now status rt a))"
    by simp
  moreover have "uptimePercentage (monitoring (updateHealthStatus now status rt a)) =
      real_of_int (checksPerformed (monitoring (updateHealthStatus now status rt a))
                   - consecutiveFailures (monitoring (updateHealthStatus now status rt a)))
      / real_of_int (max (checksPerformed (monitoring (updateHealthStatus now status rt a))) 1)
      * 100"
    by (simp add: updateHealthStatus_def Let_def split: option.split)
  ultimately show ?thesis by simp
qed


subsection \<open>Incidents, events and evaluation\<close>

lemmas example_defs = exampleApp_def newApp_def defaultConfiguration_def
      exampleEnv_def connectionRefused_def saveFailed_def axiosTimeout_def

lemmas cycle_defs = checkAppHealth_def probe_def tryBlock_def
      catchBlock_def probeUrl_def fullUrl_def truthy_def updateHealthStatus_def
      checkAlertConditions_def shouldSendAlert_def shouldAutoRestart_def
      attemptAutoRestart_def simulateRestart_def jsAdd_exact Let_def

lemma patientApp_value:
  "patientApp =
     \<lparr> appId = ''app_1'', userId = ''user_1'', deploymentStatus = Pending,
       healthStatus = Down, monitoringEnabled = True, lastCheck = 1000,
       deployment = \<lparr> url = Some ''http://app.example'', customDomain = None \<rparr>,
       monitoring = \<lparr> uptimePercentage = 0,
                      responseTime = \<lparr> current = 120, average = 120 \<rparr>,
                      checksPerformed = 2, consecutiveFailures = 2,
                      lastFailure = Some 1000, incidents = [] \<rparr>,
       configuration = \<lparr> autoRestart = True, maxRestartAttempts = 5, healthCheckPath = ''/'',
                         healthCheckInterval = 30, timeout = 30 \<rparr>,
       isActive = True \<rparr>"
  by (simp add: patientApp_def example_defs cycle_defs)

lemma open_count_cleanup:
  "length (filter openDowntime (incidents (monitoring (cleanupOldData now a))))
     \<le> length (filter openDowntime (incidents (monitoring a)))"
proof -
  have "\<And>P Q (xs :: incident list). length (filter P (filter Q xs)) \<le> length (filter P xs)"
    subgoal for P Q xs by (induction xs) auto
    done
  then show ?thesis by (simp add: cleanupOldData_def)
qed

lemma reachable_open_downtime:
  "reachable a \<Longrightarrow> length (filter openDowntime (incidents (monitoring a))) \<le> 1"
proof (induction rule: reachable.induct)
  case (created aid uid now dep conf)
  show ?case by (simp add: newApp_def)
next
  case (updated a now status rt)
  then show ?case by (simp add: updateHealthStatus_incidents)
next
  case (alerted a env status rt error)
  then show ?case by (simp add: checkAlertConditions_doc)
next
  case (status_set a h)
  then show ?case by simp
next
  case (restarted a env)
  then show ?case by (simp add: simulateRestart_def)
next
  case (cycle a env)
  then show ?case by (simp add: checkAppHealth_incidents)
next
  case (aggregated a)
  then show ?case by (simp add: estimatedUptime_def)
next
  case (cleaned a now)
  then show ?case using open_count_cleanup [of now a] by linarith
next
  case (configured a ds en conf act)
  then show ?case by simp
qed

lemma reachable_warnedApp: "reachable warnedApp"
  unfolding warnedApp_def
proof (intro reachable.cycle)
  have "exampleApp \<lparr> configuration := defaultConfiguration \<lparr> autoRestart := False \<rparr> \<rparr>
      = newApp ''app_1'' ''user_1'' 0 \<lparr> url = Some ''http://app.example'', customDomain = None \<rparr>
          (defaultConfiguration \<lparr> autoRestart := False \<rparr>)"
    by (simp add: exampleApp_def newApp_def)
  then show "reachable (exampleApp \<lparr> configuration := defaultConfiguration \<lparr> autoRestart := False \<rparr> \<rparr>)"
    by (simp add: reachable.created)
qed

lemma resolveIn_hit:
  "(\<forall>x \<in> set xs. oid x \<noteq> k) \<Longrightarrow> oid i = k \<Longrightarrow>
   resolveIn now k (xs @ i # ys) =
     xs @ i \<lparr> endTime := Some now, duration := Some ((now - startTime i) div 1000),
              resolved := True \<rparr> # ys"
  by (induction xs) auto

lemma resolveIn_miss:
  "(\<forall>x \<in> set xs. oid x \<noteq> k) \<Longrightarrow> resolveIn now k xs = xs"
  by (induction xs) auto

lemma attemptAutoRestart_events:
  "RestartAttempt \<in> set (events (attemptAutoRestart env a))"
  by (simp add: attemptAutoRestart_def simulateRestart_def Let_def split: option.split)

lemma checkAlertConditions_events:
  "RestartAttempt \<notin> set (fst (checkAlertConditions env st rt er a))"
  by (simp add: checkAlertConditions_def split: user_lookup.split)

text \<open>
  The first failed check of a fresh target: the target goes from \<open>unknown\<close> to \<open>down\<close>
  with one consecutive failure, and no incident is opened. \<open>createIncident\<close> is called
  only inside the branch guarded by \<open>shouldSendAlert\<close>, which needs at least two
  consecutive failures, and only when the count is exactly one.
\<close>

lemma first_down_opens_no_incident:
  "healthStatus exampleApp = Unknown
   \<and> healthStatus (doc (checkAppHealth (exampleEnv (Rejected connectionRefused)) exampleApp)) = Down
   \<and> consecutiveFailures
        (monitoring (doc (checkAppHealth (exampleEnv (Rejected connectionRefused)) exampleApp))) = 1
   \<and> incidents
        (monitoring (doc (checkAppHealth (exampleEnv (Rejected connectionRefused)) exampleApp))) = []"
  by (simp add: exampleApp_def newApp_def defaultConfiguration_def
      exampleEnv_def connectionRefused_def checkAppHealth_def probe_def tryBlock_def
      catchBlock_def probeUrl_def fullUrl_def truthy_def updateHealthStatus_def
      checkAlertConditions_def shouldSendAlert_def shouldAutoRestart_def jsAdd_exact Let_def)

lemma aggregateLoop_saved:
  "(\<forall>b \<in> set db. isActive b \<and> deploymentStatus b = Deployed \<longrightarrow> saveOk (estimatedUptime b))
   \<Longrightarrow> aggregateLoop saveOk db =
         map (\<lambda>b. if isActive b \<and> deploymentStatus b = Deployed then estimatedUptime b else b) db"
  by (induction db) auto

text \<open>
  A target that does not answer within the timeout of the request: the error has the
  code \<open>ECONNABORTED\<close>, which the \<open>catch\<close> block does not list beside \<open>ETIMEDOUT\<close>, and
  the observation is \<open>warning\<close>.
\<close>

lemma request_timeout_is_warning:
  "probe ((exampleEnv (Rejected axiosTimeout)) \<lparr> elapsed := 30000 \<rparr>) exampleApp
     = Inr (Observed Warning 30000 (Some ''timeout of 30000ms exceeded''))
   \<and> healthStatus (doc (checkAppHealth
         ((exampleEnv (Rejected axiosTimeout)) \<lparr> elapsed := 30000 \<rparr>) exampleApp)) = Warning"
  by (simp add: example_defs cycle_defs)

section \<open>The claims\<close>

text \<open>
  C2. \<open>shouldSendAlert\<close> returns false when \<open>monitoringEnabled\<close> is false, and otherwise
  true exactly when the status is \<open>down\<close> with at least 3 consecutive failures, or the
  response time exceeds 5000 ms with at least 2, or the status is \<open>warning\<close> with at
  least 5. In particular, with monitoring enabled it is true for a \<open>down\<close> observation
  at 3 consecutive failures; it is false for a \<open>down\<close> observation at 2 consecutive
  failures when the response time is \<open>null\<close> or at most 5000 ms.
\<close>

theorem shouldSendAlert_decision:
  "(shouldSendAlert a status rt \<longleftrightarrow>
      monitoringEnabled a \<and>
      (status = Down \<and> consecutiveFailures (monitoring a) \<ge> 3
       \<or> (\<exists>r. rt = Some r \<and> r > 5000) \<and> consecutiveFailures (monitoring a) \<ge> 2
       \<or> status = Warning \<and> consecutiveFailures (monitoring a) \<ge> 5))
   \<and> (monitoringEnabled a \<and> consecutiveFailures (monitoring a) = 3
        \<longrightarrow> shouldSendAlert a Down rt)
   \<and> (consecutiveFailures (monitoring a) = 2 \<and> \<not> (\<exists>r. rt = Some r \<and> r > 5000)
        \<longrightarrow> \<not> shouldSendAlert a Down rt)"
  by (cases rt) (auto simp: shouldSendAlert_def)

theorem shouldSendAlert_decision_witness:
  "monitoringEnabled downApp \<and> consecutiveFailures (monitoring downApp) = 3
   \<and> shouldSendAlert downApp Down None
   \<and> consecutiveFailures (monitoring patientApp) = 2
   \<and> \<not> (\<exists>r. Some (120::int) = Some r \<and> r > 5000)
   \<and> \<not> shouldSendAlert patientApp Down (Some 120)"
  using shouldSendAlert_decision [of downApp Down None]
        shouldSendAlert_decision [of patientApp Down "Some 120"]
  by (simp add: downApp_def patientApp_value exampleApp_def newApp_def)

text \<open>
  Without the bound on the response time the last part fails: a \<open>down\<close> observation at 2
  consecutive failures that took 6000 ms alerts through the slow-response rule.
\<close>

theorem shouldSendAlert_decision_counterexample:
  "monitoringEnabled patientApp \<and> consecutiveFailures (monitoring patientApp) = 2
   \<and> shouldSendAlert patientApp Down (Some 6000)"
  by (simp add: shouldSendAlert_def patientApp_value exampleApp_def newApp_def)

text \<open>
  C5. \<open>updateHealthStatus\<close> sets \<open>consecutiveFailures\<close> to 0 on \<open>up\<close> whatever it was; on
  \<open>down\<close> and on \<open>warning\<close> it stamps \<open>lastFailure\<close> with the current time and adds 1 in
  Number arithmetic, which is exactly 1 more whenever the counter is at least \<open>-2^53\<close>
  and below \<open>2^53\<close>; the remaining statuses \<open>restarting\<close> and \<open>unknown\<close> leave the counter
  as it was.
\<close>

theorem updateHealthStatus_consecutiveFailures:
  "consecutiveFailures (monitoring (updateHealthStatus now Up rt a)) = 0
   \<and> (- 9007199254740992 \<le> consecutiveFailures (monitoring a)
        \<and> consecutiveFailures (monitoring a) < 9007199254740992
      \<longrightarrow> consecutiveFailures (monitoring (updateHealthStatus now Down rt a))
            = consecutiveFailures (monitoring a) + 1
          \<and> consecutiveFailures (monitoring (updateHealthStatus now Warning rt a))
            = consecutiveFailures (monitoring a) + 1)
   \<and> lastFailure (monitoring (updateHealthStatus now Down rt a)) = Some now
   \<and> lastFailure (monitoring (updateHealthStatus now Warning rt a)) = Some now
   \<and> consecutiveFailures (monitoring (updateHealthStatus now Restarting rt a))
       = consecutiveFailures (monitoring a)
   \<and> consecutiveFailures (monitoring (updateHealthStatus now Unknown rt a))
       = consecutiveFailures (monitoring a)"
proof -
  have "jsAdd (consecutiveFailures (monitoring a)) 1 = consecutiveFailures (monitoring a) + 1"
    if "- 9007199254740992 \<le> consecutiveFailures (monitoring a)"
       "consecutiveFailures (monitoring a) < 9007199254740992"
    using that by (simp add: jsAdd_exact)
  moreover have "lastFailure (monitoring (updateHealthStatus now Down rt a)) = Some now"
    "lastFailure (monitoring (updateHealthStatus now Warning rt a)) = Some now"
    by (simp_all add: updateHealthStatus_def Let_def split: option.split)
  ultimately show ?thesis
    by (simp add: updateHealthStatus_counters)
qed

theorem updateHealthStatus_consecutiveFailures_witness:
  "- 9007199254740992 \<le> consecutiveFailures (monitoring patientApp)
   \<and> consecutiveFailures (monitoring patientApp) < 9007199254740992
   \<and> consecutiveFailures (monitoring patientApp) = 2
   \<and> consecutiveFailures (monitoring (updateHealthStatus 2000 Down (Some 120) patientApp)) = 3
   \<and> consecutiveFailures (monitoring (updateHealthStatus 2000 Warning (Some 120) patientApp)) = 3
   \<and> consecutiveFailures (monitoring (updateHealthStatus 2000 Up (Some 120) patientApp)) = 0"
  using updateHealthStatus_consecutiveFailures [of 2000 "Some 120" patientApp]
  by (simp add: patientApp_value)

text \<open>
  At \<open>2^53\<close> the addition is lost: after a \<open>down\<close> observation the counter is still
  \<open>2^53\<close>, not one more.
\<close>

theorem updateHealthStatus_consecutiveFailures_counterexample:
  "consecutiveFailures (monitoring saturatedApp) = 9007199254740992
   \<and> consecutiveFailures (monitoring (updateHealthStatus 1000 Down (Some 120) saturatedApp))
       = 9007199254740992"
  by (simp add: saturatedApp_def updateHealthStatus_counters jsAdd_lost)

text \<open>
  C6. After every call of \<open>updateHealthStatus\<close> on a document the code can produce,
  \<open>uptimePercentage\<close> is \<open>(checksPerformed - consecutiveFailures) / checksPerformed * 100\<close>
  over the counters after the update, and lies between 0 and 100.
\<close>

theorem uptimePercentage_after_update:
  assumes "reachable a"
  shows "uptimePercentage (monitoring (updateHealthStatus now status rt a)) =
           real_of_int (checksPerformed (monitoring (updateHealthStatus now status rt a))
                        - consecutiveFailures (monitoring (updateHealthStatus now status rt a)))
           / real_of_int (checksPerformed (monitoring (updateHealthStatus now status rt a))) * 100
         \<and> 0 \<le> uptimePercentage (monitoring (updateHealthStatus now status rt a))
         \<and> uptimePercentage (monitoring (updateHealthStatus now status rt a)) \<le> 100"
proof -
  define m where "m = monitoring (updateHealthStatus now status rt a)"
  have ok: "counters_ok a" using assms by (rule reachable_counters_ok)
  then have "counters_ok (updateHealthStatus now status rt a)"
    by (rule counters_ok_updateHealthStatus)
  then have cf: "0 \<le> consecutiveFailures m" "consecutiveFailures m \<le> checksPerformed m"
    by (simp_all add: counters_ok_def m_def)
  have cp: "1 \<le> checksPerformed m"
    using ok by (simp add: m_def updateHealthStatus_counters counters_ok_def jsAdd_counter)
  have eq: "uptimePercentage m =
      real_of_int (checksPerformed m - consecutiveFailures m) / real_of_int (checksPerformed m) * 100"
    unfolding m_def using ok by (rule uptime_formula)
  define q where
    "q = real_of_int (checksPerformed m - consecutiveFailures m) / real_of_int (checksPerformed m)"
  have "0 \<le> q" and "q \<le> 1"
    using cf cp by (simp_all add: q_def)
  then have "0 \<le> q * 100" and "q * 100 \<le> 100"
    by simp_all
  moreover have "uptimePercentage m = q * 100"
    using eq by (simp only: q_def)
  ultimately have "0 \<le> uptimePercentage m \<and> uptimePercentage m \<le> 100"
    by simp
  with eq show ?thesis by (simp add: m_def)
qed

theorem uptimePercentage_after_update_witness:
  "reachable exampleApp
   \<and> uptimePercentage (monitoring (updateHealthStatus 1000 Down (Some 120) exampleApp)) = 0
   \<and> uptimePercentage (monitoring (updateHealthStatus 2000 Up (Some 80)
         (updateHealthStatus 1000 Down (Some 120) exampleApp))) = 100"
proof -
  have r0: "reachable exampleApp"
    unfolding exampleApp_def by (rule reachable.created)
  have r1: "reachable (updateHealthStatus 1000 Down (Some 120) exampleApp)"
    using r0 by (rule reachable.updated)
  show ?thesis
    using r0 uptimePercentage_after_update [OF r0, of 1000 Down "Some 120"]
      uptimePercentage_after_update [OF r1, of 2000 Up "Some 80"]
    by (simp add: updateHealthStatus_counters jsAdd_exact exampleApp_def newApp_def)
qed



text \<open>
  C3. Every reachable document has at most one unresolved incident of type \<open>downtime\<close>,
  and a \<open>down\<close> observation on a document that has one open leaves the incidents list
  as it is.
\<close>

theorem at_most_one_open_downtime:
  "(reachable a \<longrightarrow> length (filter openDowntime (incidents (monitoring a))) \<le> 1)
   \<and> ((\<exists>i \<in> set (incidents (monitoring b)). openDowntime i)
        \<and> probe env b = Inr (Observed Down rt er)
      \<longrightarrow> incidents (monitoring (doc (checkAppHealth env b))) = incidents (monitoring b))"
  using reachable_open_downtime [of a] by (simp add: checkAppHealth_incidents)

theorem at_most_one_open_downtime_witness:
  "reachable warnedApp
   \<and> length (filter openDowntime (incidents (monitoring warnedApp))) \<le> 1
   \<and> openDowntime openIncident
   \<and> probe (exampleEnv (Rejected connectionRefused)) downApp
       = Inr (Observed Down 120 (Some ''connect ECONNREFUSED''))
   \<and> incidents (monitoring (doc (checkAppHealth (exampleEnv (Rejected connectionRefused)) downApp)))
       = [openIncident]"
proof -
  have p: "probe (exampleEnv (Rejected connectionRefused)) downApp
       = Inr (Observed Down 120 (Some ''connect ECONNREFUSED''))"
    by (simp add: downApp_def exampleApp_def newApp_def defaultConfiguration_def
      exampleEnv_def connectionRefused_def probe_def tryBlock_def
      catchBlock_def probeUrl_def fullUrl_def truthy_def)
  have i: "incidents (monitoring downApp) = [openIncident]"
    by (simp add: downApp_def)
  have o: "openDowntime openIncident"
    by (simp add: openDowntime_def openIncident_def)
  show ?thesis
    using reachable_warnedApp p i o
      at_most_one_open_downtime [of warnedApp downApp "exampleEnv (Rejected connectionRefused)"
        120 "Some ''connect ECONNREFUSED''"]
    by simp
qed

text \<open>
  C4. A check cycle resolves no incident: all incidents on record before the cycle are
  on record, unchanged, after it, also when the target goes from \<open>down\<close> to \<open>up\<close>.
  \<open>resolveIncident(id)\<close> marks the first incident whose \<open>_id\<close> is \<open>id\<close> as resolved,
  stamps \<open>endTime\<close> with the current time and sets \<open>duration\<close> to
  \<open>floor((endTime - startTime) / 1000)\<close> seconds; every other incident stays as it is,
  and without such an incident nothing changes.
\<close>

theorem incidents_resolved_only_by_resolveIncident:
  "take (length (incidents (monitoring a))) (incidents (monitoring (doc (checkAppHealth env a))))
     = incidents (monitoring a)
   \<and> (incidents (monitoring b) = xs @ i # ys \<and> (\<forall>x \<in> set xs. oid x \<noteq> k) \<and> oid i = k
      \<longrightarrow> incidents (monitoring (resolveIncident now k b)) =
            xs @ i \<lparr> endTime := Some now, duration := Some ((now - startTime i) div 1000),
                     resolved := True \<rparr> # ys)
   \<and> ((\<forall>x \<in> set (incidents (monitoring b)). oid x \<noteq> k)
      \<longrightarrow> incidents (monitoring (resolveIncident now k b)) = incidents (monitoring b))"
  by (simp add: checkAppHealth_incidents resolveIncident_def resolveIn_hit resolveIn_miss)

theorem incidents_resolved_only_by_resolveIncident_witness:
  "incidents (monitoring downApp) = [] @ openIncident # []
   \<and> oid openIncident = 1
   \<and> incidents (monitoring (resolveIncident 2500 1 downApp)) =
        [openIncident \<lparr> endTime := Some 2500, duration := Some 2, resolved := True \<rparr>]
   \<and> incidents (monitoring (resolveIncident 2500 9 downApp)) = [openIncident]"
proof -
  have i: "incidents (monitoring downApp) = [] @ openIncident # []"
    by (simp add: downApp_def)
  have o: "oid openIncident = 1" "startTime openIncident = 500"
    by (simp_all add: openIncident_def)
  show ?thesis
    using i o
      incidents_resolved_only_by_resolveIncident
        [of downApp "exampleEnv (Resolved 200)" downApp "[]" openIncident "[]" 1 2500]
      incidents_resolved_only_by_resolveIncident
        [of downApp "exampleEnv (Resolved 200)" downApp "[]" openIncident "[]" 9 2500]
    by simp
qed

text \<open>
  A target that is \<open>down\<close> with an open downtime incident and answers 200: it goes to
  \<open>up\<close> and the incident stays unresolved.
\<close>

theorem incidents_resolved_only_by_resolveIncident_counterexample:
  "healthStatus downApp = Down
   \<and> incidents (monitoring downApp) = [openIncident]
   \<and> incidentType openIncident = Downtime \<and> \<not> resolved openIncident
   \<and> healthStatus (doc (checkAppHealth (exampleEnv (Resolved 200)) downApp)) = Up
   \<and> incidents (monitoring (doc (checkAppHealth (exampleEnv (Resolved 200)) downApp)))
       = [openIncident]"
  by (simp add: downApp_def openIncident_def exampleApp_def newApp_def defaultConfiguration_def
      exampleEnv_def checkAppHealth_def probe_def tryBlock_def
      catchBlock_def probeUrl_def fullUrl_def truthy_def updateHealthStatus_def
      checkAlertConditions_def shouldSendAlert_def shouldAutoRestart_def jsAdd_exact Let_def)

text \<open>
  C7. \<open>shouldAutoRestart\<close> holds exactly when \<open>configuration.autoRestart\<close> is true,
  \<open>healthStatus\<close> is \<open>down\<close> and \<open>consecutiveFailures\<close> is at least 3, a fixed threshold:
  the configured \<open>maxRestartAttempts\<close> has no influence. A check cycle that has probed
  the target and saved the update attempts a restart exactly when this holds of the
  updated document; a cycle that stops earlier attempts none.
\<close>

theorem restart_attempted_iff:
  "(shouldAutoRestart a \<longleftrightarrow>
      autoRestart (configuration a) \<and> healthStatus a = Down
      \<and> consecutiveFailures (monitoring a) \<ge> 3)
   \<and> shouldAutoRestart (a \<lparr> configuration := (configuration a) \<lparr> maxRestartAttempts := n \<rparr> \<rparr>)
       = shouldAutoRestart a
   \<and> (probe env a = Inr (Observed st rt er) \<and> saveUpdate env = None
      \<longrightarrow> (RestartAttempt \<in> set (events (checkAppHealth env a)) \<longleftrightarrow>
             autoRestart (configuration a) \<and> st = Down
             \<and> consecutiveFailures
                 (monitoring (updateHealthStatus (tUpdate env) st (Some rt) a)) \<ge> 3))
   \<and> (probe env a = Inr NoUrl \<or> saveUpdate env \<noteq> None
      \<longrightarrow> RestartAttempt \<notin> set (events (checkAppHealth env a)))"
proof -
  have 1: "shouldAutoRestart a \<longleftrightarrow>
      autoRestart (configuration a) \<and> healthStatus a = Down
      \<and> consecutiveFailures (monitoring a) \<ge> 3"
    by (auto simp: shouldAutoRestart_def)
  have 2: "shouldAutoRestart (a \<lparr> configuration := (configuration a) \<lparr> maxRestartAttempts := n \<rparr> \<rparr>)
       = shouldAutoRestart a"
    by (simp add: shouldAutoRestart_def)
  have 3: "RestartAttempt \<in> set (events (checkAppHealth env a)) \<longleftrightarrow>
             autoRestart (configuration a) \<and> st = Down
             \<and> consecutiveFailures
                 (monitoring (updateHealthStatus (tUpdate env) st (Some rt) a)) \<ge> 3"
    if "probe env a = Inr (Observed st rt er)" "saveUpdate env = None"
  proof -
    have s: "shouldAutoRestart (updateHealthStatus (tUpdate env) st (Some rt) a) \<longleftrightarrow>
       autoRestart (configuration a) \<and> st = Down
             \<and> consecutiveFailures
                 (monitoring (updateHealthStatus (tUpdate env) st (Some rt) a)) \<ge> 3"
      by (auto simp: shouldAutoRestart_def updateHealthStatus_def Let_def)
    show ?thesis
      unfolding s [symmetric]
      using that
      by (simp add: checkAppHealth_Observed Let_def attemptAutoRestart_events
          checkAlertConditions_events split: option.split)
  qed
  have 4: "RestartAttempt \<notin> set (events (checkAppHealth env a))"
    if "probe env a = Inr NoUrl \<or> saveUpdate env \<noteq> None"
  proof (cases rule: probe_cases[of env a])
    case 1
    then show ?thesis by (simp add: checkAppHealth_NoUrl)
  next
    case (2 st rt er)
    with that obtain e where "saveUpdate env = Some e" by auto
    with 2 show ?thesis by (simp add: checkAppHealth_save_failed)
  qed
  from 1 2 3 4 show ?thesis by blast
qed

theorem restart_attempted_iff_witness:
  "probe (exampleEnv (Resolved 503)) patientApp = Inr (Observed Down 120 None)
   \<and> saveUpdate (exampleEnv (Resolved 503)) = None
   \<and> RestartAttempt \<in> set (events (checkAppHealth (exampleEnv (Resolved 503)) patientApp))
   \<and> probe (exampleEnv (Resolved 503)) (exampleApp \<lparr> deployment := \<lparr> url = None, customDomain = None \<rparr> \<rparr>) = Inr NoUrl
   \<and> RestartAttempt \<notin> set (events (checkAppHealth (exampleEnv (Resolved 503))
         (exampleApp \<lparr> deployment := \<lparr> url = None, customDomain = None \<rparr> \<rparr>)))"
proof -
  have p: "probe (exampleEnv (Resolved 503)) patientApp = Inr (Observed Down 120 None)"
    by (simp add: patientApp_value example_defs probe_def tryBlock_def probeUrl_def fullUrl_def truthy_def)
  have q: "probe (exampleEnv (Resolved 503)) (exampleApp \<lparr> deployment := \<lparr> url = None, customDomain = None \<rparr> \<rparr>) = Inr NoUrl"
    by (simp add: example_defs probe_def tryBlock_def probeUrl_def fullUrl_def truthy_def)
  have s: "saveUpdate (exampleEnv (Resolved 503)) = None" "tUpdate (exampleEnv (Resolved 503)) = 1000"
    by (simp_all add: exampleEnv_def)
  have c: "autoRestart (configuration patientApp)"
     "consecutiveFailures (monitoring (updateHealthStatus 1000 Down (Some 120) patientApp)) = 3"
    by (simp_all add: patientApp_value example_defs updateHealthStatus_counters jsAdd_exact)
  show ?thesis
    using p q s c
      restart_attempted_iff [of patientApp 0 "exampleEnv (Resolved 503)" Down 120 None]
      restart_attempted_iff [of "exampleApp \<lparr> deployment := \<lparr> url = None, customDomain = None \<rparr> \<rparr>" 0
         "exampleEnv (Resolved 503)" Down 120 None]
    by simp
qed

text \<open>
  With \<open>maxRestartAttempts = 5\<close> a restart is attempted at the third consecutive failure.
\<close>

theorem restart_attempted_iff_counterexample:
  "autoRestart (configuration patientApp)
   \<and> maxRestartAttempts (configuration patientApp) = 5
   \<and> probe (exampleEnv (Resolved 503)) patientApp = Inr (Observed Down 120 None)
   \<and> healthStatus (updateHealthStatus 1000 Down (Some 120) patientApp) = Down
   \<and> consecutiveFailures (monitoring (updateHealthStatus 1000 Down (Some 120) patientApp)) = 3
   \<and> RestartAttempt \<in> set (events (checkAppHealth (exampleEnv (Resolved 503)) patientApp))"
  by (simp add: patientApp_value example_defs cycle_defs)

text \<open>
  C8. A remediation attempt whose \<open>try\<close> block succeeds ends with
  \<open>consecutiveFailures = 0\<close>, \<open>healthStatus = up\<close> and \<open>lastCheck\<close> stamped with the
  current time. When the restart call throws, or the \<open>save()\<close> before it, \<open>healthStatus\<close>
  is set back to \<open>down\<close>, not to \<open>unknown\<close>.
\<close>

theorem attemptAutoRestart_outcome:
  "(saveRestarting env = None
      \<and> fst (simulateRestart env (a \<lparr> healthStatus := Restarting \<rparr>)) = None
     \<longrightarrow> consecutiveFailures (monitoring (doc (attemptAutoRestart env a))) = 0
         \<and> healthStatus (doc (attemptAutoRestart env a)) = Up
         \<and> lastCheck (doc (attemptAutoRestart env a)) = tRestart env
         \<and> thrown (attemptAutoRestart env a) = None)
   \<and> (saveRestarting env = None
      \<and> fst (simulateRestart env (a \<lparr> healthStatus := Restarting \<rparr>)) = Some e
     \<longrightarrow> healthStatus (doc (attemptAutoRestart env a)) = Down
         \<and> healthStatus (doc (attemptAutoRestart env a)) \<noteq> Unknown)
   \<and> (saveRestarting env = Some e
     \<longrightarrow> healthStatus (doc (attemptAutoRestart env a)) = Down
         \<and> healthStatus (doc (attemptAutoRestart env a)) \<noteq> Unknown)"
  by (auto simp: attemptAutoRestart_def simulateRestart_def Let_def split: option.split)

theorem attemptAutoRestart_outcome_witness:
  "saveRestarting (exampleEnv (Resolved 503)) = None
   \<and> fst (simulateRestart (exampleEnv (Resolved 503)) (downApp \<lparr> healthStatus := Restarting \<rparr>)) = None
   \<and> consecutiveFailures (monitoring (doc (attemptAutoRestart (exampleEnv (Resolved 503)) downApp))) = 0
   \<and> healthStatus (doc (attemptAutoRestart (exampleEnv (Resolved 503)) downApp)) = Up
   \<and> lastCheck (doc (attemptAutoRestart (exampleEnv (Resolved 503)) downApp)) = 3000
   \<and> fst (simulateRestart ((exampleEnv (Resolved 503)) \<lparr> saveRestart := Some saveFailed \<rparr>)
            (downApp \<lparr> healthStatus := Restarting \<rparr>)) = Some saveFailed
   \<and> healthStatus (doc (attemptAutoRestart
         ((exampleEnv (Resolved 503)) \<lparr> saveRestart := Some saveFailed \<rparr>) downApp)) = Down
   \<and> healthStatus (doc (attemptAutoRestart
         ((exampleEnv (Resolved 503)) \<lparr> saveRestarting := Some saveFailed \<rparr>) downApp)) = Down"
  using attemptAutoRestart_outcome [of "exampleEnv (Resolved 503)" downApp saveFailed]
    attemptAutoRestart_outcome
      [of "(exampleEnv (Resolved 503)) \<lparr> saveRestart := Some saveFailed \<rparr>" downApp saveFailed]
    attemptAutoRestart_outcome
      [of "(exampleEnv (Resolved 503)) \<lparr> saveRestarting := Some saveFailed \<rparr>" downApp saveFailed]
  by (simp add: exampleEnv_def simulateRestart_def)




text \<open>
  C10. The aggregation job assigns \<open>max(0, 100 - 2 * consecutiveFailures)\<close> to
  \<open>uptimePercentage\<close>: the value depends on the current \<open>consecutiveFailures\<close> only,
  not on the \<open>uptimePercentage\<close> that was there, and a run whose saves all succeed
  overwrites it on every active, deployed document and leaves the others alone.
\<close>

theorem aggregateHealthMetrics_overwrites:
  "uptimePercentage (monitoring (estimatedUptime a))
     = real_of_int (max 0 (100 - 2 * consecutiveFailures (monitoring a)))
   \<and> estimatedUptime (a \<lparr> monitoring := (monitoring a) \<lparr> uptimePercentage := u \<rparr> \<rparr>)
       = estimatedUptime a
   \<and> ((\<forall>b \<in> set db. isActive b \<and> deploymentStatus b = Deployed \<longrightarrow> saveOk (estimatedUptime b))
      \<longrightarrow> aggregateHealthMetrics True saveOk db =
            map (\<lambda>b. if isActive b \<and> deploymentStatus b = Deployed then estimatedUptime b else b) db)"
  by (simp add: aggregateLoop_saved aggregateHealthMetrics_def estimatedUptime_def mult.commute)

theorem aggregateHealthMetrics_overwrites_witness:
  "uptimePercentage (monitoring (updateHealthStatus 1000 Down (Some 120) exampleApp)) = 0
   \<and> map (\<lambda>b. uptimePercentage (monitoring b))
        (aggregateHealthMetrics True (\<lambda>b. True)
           [(updateHealthStatus 1000 Down (Some 120) exampleApp) \<lparr> deploymentStatus := Deployed \<rparr>,
            exampleApp])
       = [98, 100]"
  using aggregateHealthMetrics_overwrites
    [of "(updateHealthStatus 1000 Down (Some 120) exampleApp) \<lparr> deploymentStatus := Deployed \<rparr>" 0
      "[(updateHealthStatus 1000 Down (Some 120) exampleApp) \<lparr> deploymentStatus := Deployed \<rparr>,
            exampleApp]" "\<lambda>b. True"]
  by (simp add: example_defs updateHealthStatus_def estimatedUptime_def jsAdd_exact Let_def)

end
